theory Spec2Isabelle
  imports Complex_Main
begin

section \<open>Resume and job-description parser: a model of app.py\<close>

text \<open>
  The service is a linear pipeline: upload, text extraction through a temporary file,
  prompt selection, one HTTPS call to a completion endpoint, and a lenient JSON decoding
  of the answer. The model passes the world (file system, external calls made, log
  records) explicitly, returns every raised exception as a value, and takes the libraries
  the code calls (the PDF reader, the HTTP client, the JSON decoder, the temporary-file
  namer) as the fields of an environment record.
\<close>

subsection \<open>Values and exceptions\<close>

type_synonym bytes = string
type_synonym path = string

text \<open>
  The Python value that \<^verbatim>\<open>json.loads\<close> and \<^verbatim>\<open>response.json()\<close> return. An object
  is the item list of the decoded \<^verbatim>\<open>dict\<close>. A Python \<^verbatim>\<open>str\<close> and a decoded JSON
  string are the same kind of value, so one constructor stands for both. The decoder also
  accepts the literals \<^verbatim>\<open>NaN\<close>, \<^verbatim>\<open>Infinity\<close> and \<^verbatim>\<open>-Infinity\<close>, which are not JSON,
  and returns the float of that name.
\<close>

datatype nonfinite = NaN | PosInfinity | NegInfinity

datatype json =
    JNull
  | JBool bool
  | JNum rat
  | JNonFinite nonfinite
  | JString string
  | JArray "json list"
  | JObject "(string \<times> json) list"

datatype pykey = KStr string | KInt int

datatype exc =
    HTTPException int string
  | KeyError pykey
  | IndexError
  | TypeError
  | JSONDecodeError string
  | ValueError string
  | RecursionError string

text \<open>
  Subscription \<^verbatim>\<open>v[k]\<close> on a decoded value. A \<^verbatim>\<open>dict\<close> raises KeyError on a key
  it does not hold (its keys are strings, so every integer key is missing); a
  \<^verbatim>\<open>list\<close> and a \<^verbatim>\<open>str\<close> take integer indices, negative ones counting from the end,
  raise IndexError out of range and TypeError on a string key; numbers, booleans and
  \<^verbatim>\<open>None\<close> are not subscriptable.
\<close>

definition index_of :: "nat \<Rightarrow> int \<Rightarrow> nat option" where
  "index_of n i =
     (let j = (if i < 0 then int n + i else i)
      in if 0 \<le> j \<and> j < int n then Some (nat j) else None)"

fun getitem :: "json \<Rightarrow> pykey \<Rightarrow> exc + json" where
  "getitem (JObject kvs) (KStr k) =
     (case map_of kvs k of None \<Rightarrow> Inl (KeyError (KStr k)) | Some v \<Rightarrow> Inr v)"
| "getitem (JObject kvs) (KInt i) = Inl (KeyError (KInt i))"
| "getitem (JArray xs) (KInt i) =
     (case index_of (length xs) i of None \<Rightarrow> Inl IndexError | Some j \<Rightarrow> Inr (xs ! j))"
| "getitem (JArray xs) (KStr k) = Inl TypeError"
| "getitem (JString s) (KInt i) =
     (case index_of (length s) i of None \<Rightarrow> Inl IndexError | Some j \<Rightarrow> Inr (JString [s ! j]))"
| "getitem (JString s) (KStr k) = Inl TypeError"
| "getitem JNull k = Inl TypeError"
| "getitem (JBool b) k = Inl TypeError"
| "getitem (JNum r) k = Inl TypeError"
| "getitem (JNonFinite f) k = Inl TypeError"

subsection \<open>The world, logging and the libraries\<close>

record request =
  url :: string
  headers :: "(string \<times> string) list"
  json_body :: json
  timeout :: nat

datatype call =
    WriteTemp path bytes
  | OpenPdf path
  | Unlink path
  | Post request

datatype level = INFO | WARNING | ERROR

text \<open>
  \<open>files\<close> holds the files the handlers themselves create, read and remove, by path.
  \<open>calls\<close> is the list of calls made to the outside, in order. \<open>logged\<close> is the
  output of the module's logger, in order: every record it is handed goes to the end of
  \<^verbatim>\<open>app.log\<close> and to the standard error stream (lines 35 to 45). That output is kept
  apart from \<open>files\<close>: \<^verbatim>\<open>app.log\<close> is not a path of \<open>files\<close>, and a logging call
  changes \<open>logged\<close> and nothing else.
\<close>

record world =
  files :: "path \<rightharpoonup> bytes"
  calls :: "call list"
  logged :: "(level \<times> string) list"

definition log_info :: "world \<Rightarrow> string \<Rightarrow> world" where
  "log_info w msg = w\<lparr>logged := logged w @ [(INFO, msg)]\<rparr>"

definition log_warning :: "world \<Rightarrow> string \<Rightarrow> world" where
  "log_warning w msg = w\<lparr>logged := logged w @ [(WARNING, msg)]\<rparr>"

definition log_error :: "world \<Rightarrow> string \<Rightarrow> world" where
  "log_error w msg = w\<lparr>logged := logged w @ [(ERROR, msg)]\<rparr>"

datatype http_outcome = Response int string | RequestError string

text \<open>
  What \<^verbatim>\<open>json.loads\<close> raises on a string: \<^verbatim>\<open>JSONDecodeError\<close> where the text is
  not what the decoder accepts; the plain \<^verbatim>\<open>ValueError\<close> of the integer conversion
  where an integer literal has more digits than the interpreter's limit (4300);
  \<^verbatim>\<open>RecursionError\<close> where arrays or objects are nested deeper than the interpreter's
  stack allows. Each carries its message.
\<close>

datatype loads_error = DecodeError string | DigitLimit string | TooDeep string

fun raised :: "loads_error \<Rightarrow> exc" where
  "raised (DecodeError msg) = JSONDecodeError msg"
| "raised (DigitLimit msg) = ValueError msg"
| "raised (TooDeep msg) = RecursionError msg"

text \<open>
  The libraries. \<open>mkstemp\<close> is the name \<^verbatim>\<open>NamedTemporaryFile\<close> picks on the
  current file system. \<open>PdfReader\<close> reads a byte string: \<open>Inl msg\<close> when the
  constructor raises, else one entry per page, \<open>Inl msg\<close> where \<^verbatim>\<open>extract_text\<close>
  raises on that page and \<open>Inr t\<close> where it returns \<open>t\<close>. \<open>post\<close> is one
  \<^verbatim>\<open>client.post\<close>: a response with its status code and text, or an
  \<^verbatim>\<open>httpx.RequestError\<close> with its message. \<open>json_loads\<close> is the decoder on a
  string: the value it returns, or what it raises. \<open>GROQ_API_KEY\<close> is the module
  constant of that name.
\<close>

record env =
  GROQ_API_KEY :: string
  mkstemp :: "world \<Rightarrow> path"
  PdfReader :: "bytes \<Rightarrow> string + (string + string) list"
  post :: "request \<Rightarrow> http_outcome"
  json_loads :: "string \<Rightarrow> loads_error + json"

record upload =
  filename :: "string option"
  content_type :: "string option"
  content :: bytes

subsection \<open>Formatting\<close>

text \<open>What an f-string prints for an optional string and for an integer.\<close>

definition str_opt :: "string option \<Rightarrow> string" where
  "str_opt x = (case x of None \<Rightarrow> ''None'' | Some s \<Rightarrow> s)"

fun str_nat :: "nat \<Rightarrow> string" where
  "str_nat n =
     (if n < 10 then [''0123456789'' ! n]
      else str_nat (n div 10) @ [''0123456789'' ! (n mod 10)])"

declare str_nat.simps [simp del]

definition str_int :: "int \<Rightarrow> string" where
  "str_int i = (if i < 0 then ''-'' @ str_nat (nat (- i)) else str_nat (nat i))"

subsection \<open>Start-up (lines 23 to 28)\<close>

text \<open>
  Line 24 binds \<^verbatim>\<open>GROQ_API_KEY\<close> to a string literal written in the source. The
  literal is a credential and its characters are not repeated here: it is the first
  argument, and the source's literal is not empty. The second argument is the process
  environment, which the module never reads. The result is the exception the import
  raises, or the key the module holds once it is loaded.
\<close>

definition GROQ_API_URL :: string where
  "GROQ_API_URL = ''https://api.groq.com/openai/v1/chat/completions''"

definition startup :: "string \<Rightarrow> (string \<rightharpoonup> string) \<Rightarrow> exc + string" where
  "startup key_literal environ =
     (let key = key_literal
      in if key = [] then Inl (ValueError ''GROQ_API_KEY environment variable is not set'')
         else Inr key)"

subsection \<open>extract_text_from_pdf (lines 66 to 91)\<close>

fun extract_pages :: "(string + string) list \<Rightarrow> string \<Rightarrow> string + string" where
  "extract_pages [] text = Inr text"
| "extract_pages (p # ps) text =
     (case p of Inl msg \<Rightarrow> Inl msg | Inr t \<Rightarrow> extract_pages ps (text @ t))"

text \<open>
  Lines 79 to 82: open the file at the path, build the reader, and append the text of
  every page in order. \<open>Inl msg\<close> is the message of whatever was raised.
\<close>

definition read_pdf :: "env \<Rightarrow> world \<Rightarrow> path \<Rightarrow> string + string" where
  "read_pdf e w p =
     (case files w p of
        None \<Rightarrow> Inl (''[Errno 2] No such file or directory: '' @ p)
      | Some data \<Rightarrow>
          (case PdfReader e data of
             Inl msg \<Rightarrow> Inl msg
           | Inr pages \<Rightarrow> extract_pages pages []))"

text \<open>
  The temporary file is created with \<^verbatim>\<open>delete=False\<close>, so leaving the
  \<^verbatim>\<open>with\<close> block closes it and keeps it. The only \<^verbatim>\<open>os.unlink\<close> is on line 85,
  after the pages were read; the handler of line 89 logs and raises.
\<close>

definition extract_text_from_pdf :: "env \<Rightarrow> world \<Rightarrow> upload \<Rightarrow> (exc + string) \<times> world" where
  "extract_text_from_pdf e w pdf_file =
     (let temp_path = mkstemp e w;
          w1 = w\<lparr>files := (files w)(temp_path \<mapsto> content pdf_file),
                 calls := calls w @ [WriteTemp temp_path (content pdf_file)]\<rparr>;
          w2 = log_info w1 (''Saved uploaded PDF to temporary file: '' @ temp_path);
          w3 = w2\<lparr>calls := calls w2 @ [OpenPdf temp_path]\<rparr>
      in case read_pdf e w3 temp_path of
           Inl msg \<Rightarrow>
             (Inl (HTTPException 500 (''Error extracting text from PDF: '' @ msg)),
              log_error w3 (''Error extracting text from PDF: '' @ msg))
         | Inr text \<Rightarrow>
             (let w4 = w3\<lparr>files := (files w3)(temp_path := None),
                         calls := calls w3 @ [Unlink temp_path]\<rparr>;
                  w5 = log_info w4
                         (''Extracted '' @ str_nat (length text) @ '' characters from PDF'')
              in (Inr text, w5)))"

subsection \<open>query_groq (lines 93 to 226)\<close>

definition resume_system_prompt :: string where
  \<open>resume_system_prompt = concat
    [''\<newline>'',
     ''        You are an expert resume parser. Extract the following information from the resume text:\<newline>'',
     ''        1. Name of the candidate\<newline>'',
     ''        2. Email address\<newline>'',
     ''        3. Phone number\<newline>'',
     ''        4. Technical skills (list)\<newline>'',
     ''        5. Soft skills (list)\<newline>'',
     ''        6. Experience details:\<newline>'',
     ''           - Total years of experience\<newline>'',
     ''           - Job roles (list with company, title, duration)\<newline>'',
     ''           - Industry background\<newline>'',
     ''        7. Education details:\<newline>'',
     ''           - Degree(s)\<newline>'',
     ''           - University/Institution(s)\<newline>'',
     ''           - Tier ranking (if identifiable)\<newline>'',
     ''        8. Projects:\<newline>'',
     ''           - Name\<newline>'',
     ''           - Technologies used\<newline>'',
     ''           - Brief description\<newline>'',
     ''        \<newline>'',
     ''        Return the data in a structured JSON format with these exact keys:\<newline>'',
     ''        {\<newline>'',
     ''            "name": "string",\<newline>'',
     ''            "email": "string",\<newline>'',
     ''            "phone": "string",\<newline>'',
     ''            "technical_skills": ["skill1", "skill2", ...],\<newline>'',
     ''            "soft_skills": ["skill1", "skill2", ...],\<newline>'',
     ''            "experience": {\<newline>'',
     ''                "total_years": number,\<newline>'',
     ''                "job_roles": [\<newline>'',
     ''                    {"company": "string", "title": "string", "duration": "string"}\<newline>'',
     ''                ],\<newline>'',
     ''                "industry_background": "string"\<newline>'',
     ''            },\<newline>'',
     ''            "education": {\<newline>'',
     ''                "degrees": ["string"],\<newline>'',
     ''                "institutions": ["string"],\<newline>'',
     ''                "tier_ranking": "string"\<newline>'',
     ''            },\<newline>'',
     ''            "projects": [\<newline>'',
     ''                {\<newline>'',
     ''                    "name": "string",\<newline>'',
     ''                    "technologies": ["string"],\<newline>'',
     ''                    "description": "string"\<newline>'',
     ''                }\<newline>'',
     ''            ]\<newline>'',
     ''        }\<newline>'',
     ''        '']\<close>

definition job_system_prompt :: string where
  \<open>job_system_prompt = concat
    [''\<newline>'',
     ''        You are an expert job description analyzer. Extract the following information from the job description text:\<newline>'',
     ''        1. Job title\<newline>'',
     ''        2. Company name\<newline>'',
     ''        3. Required skills (list)\<newline>'',
     ''        4. Preferred/nice-to-have skills (list)\<newline>'',
     ''        5. Experience requirements:\<newline>'',
     ''           - Minimum years required\<newline>'',
     ''           - Specific domain experience needed\<newline>'',
     ''        6. Education requirements:\<newline>'',
     ''           - Minimum degree required\<newline>'',
     ''           - Preferred fields of study\<newline>'',
     ''        7. Key responsibilities (list)\<newline>'',
     ''        \<newline>'',
     ''        Return the data in a structured JSON format with these exact keys:\<newline>'',
     ''        {\<newline>'',
     ''            "title": "string",\<newline>'',
     ''            "company": "string",\<newline>'',
     ''            "required_skills": ["skill1", "skill2", ...],\<newline>'',
     ''            "preferred_skills": ["skill1", "skill2", ...],\<newline>'',
     ''            "experience_requirements": {\<newline>'',
     ''                "minimum_years": number,\<newline>'',
     ''                "domain_experience": ["string"]\<newline>'',
     ''            },\<newline>'',
     ''            "education_requirements": {\<newline>'',
     ''                "minimum_degree": "string",\<newline>'',
     ''                "preferred_fields": ["string"]\<newline>'',
     ''            },\<newline>'',
     ''            "responsibilities": ["string"]\<newline>'',
     ''        }\<newline>'',
     ''        '']\<close>

text \<open>Lines 96 to 178: the instruction text for the document kind.\<close>

definition system_prompt :: "bool \<Rightarrow> string" where
  "system_prompt is_resume = (if is_resume then resume_system_prompt else job_system_prompt)"

text \<open>Lines 180 to 193: the request headers and the request body.\<close>

definition request_headers :: "env \<Rightarrow> (string \<times> string) list" where
  "request_headers e =
     [(''Authorization'', ''Bearer '' @ GROQ_API_KEY e),
      (''Content-Type'', ''application/json'')]"

definition payload :: "string \<Rightarrow> bool \<Rightarrow> json" where
  "payload text is_resume =
     JObject
       [(''model'', JString ''llama3-70b-8192''),
        (''messages'',
           JArray
             [JObject [(''role'', JString ''system''), (''content'', JString (system_prompt is_resume))],
              JObject [(''role'', JString ''user''), (''content'', JString text)]]),
        (''temperature'', JNum 0.2),
        (''response_format'', JObject [(''type'', JString ''json_object'')])]"

text \<open>
  Line 198 builds the client with a timeout of 60 seconds and line 199 posts once.
\<close>

definition groq_request :: "env \<Rightarrow> string \<Rightarrow> bool \<Rightarrow> request" where
  "groq_request e text is_resume =
     \<lparr>url = GROQ_API_URL, headers = request_headers e,
      json_body = payload text is_resume, timeout = 60\<rparr>"

text \<open>Line 209: \<^verbatim>\<open>result["choices"][0]["message"]["content"]\<close>, one subscription at a time.\<close>

definition content_of :: "json \<Rightarrow> exc + json" where
  "content_of result =
     (case getitem result (KStr ''choices'') of
        Inl x \<Rightarrow> Inl x
      | Inr choices \<Rightarrow>
          (case getitem choices (KInt 0) of
             Inl x \<Rightarrow> Inl x
           | Inr choice \<Rightarrow>
               (case getitem choice (KStr ''message'') of
                  Inl x \<Rightarrow> Inl x
                | Inr message \<Rightarrow> getitem message (KStr ''content''))))"

text \<open>
  Lines 213 to 222: decode the content. The handler of line 219 is for
  \<^verbatim>\<open>json.JSONDecodeError\<close> only: that one is logged and the content is returned as it
  came. Anything else the decoder raises on a string, and the TypeError it raises on a
  value that is not a string, leaves the function.
\<close>

definition coerce :: "env \<Rightarrow> world \<Rightarrow> json \<Rightarrow> (exc + json) \<times> world" where
  "coerce e w extracted_info =
     (case extracted_info of
        JString s \<Rightarrow>
          (case json_loads e s of
             Inr parsed_info \<Rightarrow> (Inr parsed_info, log_info w ''Successfully parsed JSON response'')
           | Inl (DecodeError msg) \<Rightarrow>
               (Inr (JString s),
                log_info (log_warning w (''JSON parsing error: '' @ msg))
                  ''Returning unparsed Groq API response'')
           | Inl x \<Rightarrow> (Inl (raised x), w))
      | _ \<Rightarrow> (Inl TypeError, w))"

text \<open>
  The \<^verbatim>\<open>try\<close> of line 197 has one handler, for \<^verbatim>\<open>httpx.RequestError\<close> (line 224).
  The HTTPException of line 203 and whatever lines 208 to 216 raise leave the function
  as they are.
\<close>

definition query_groq :: "env \<Rightarrow> world \<Rightarrow> string \<Rightarrow> bool \<Rightarrow> (exc + json) \<times> world" where
  "query_groq e w text is_resume =
     (let w1 = log_info w
                 (if is_resume then ''Processing resume text''
                  else ''Processing job description text'');
          w2 = log_info w1 (''Sending request to Groq API with model: '' @ ''llama3-70b-8192'');
          req = groq_request e text is_resume;
          w3 = w2\<lparr>calls := calls w2 @ [Post req]\<rparr>
      in case post e req of
           RequestError msg \<Rightarrow>
             (Inl (HTTPException 500 (''Error communicating with Groq API: '' @ msg)),
              log_error w3 (''Error communicating with Groq API: '' @ msg))
         | Response status_code body \<Rightarrow>
             if status_code \<noteq> 200 then
               (Inl (HTTPException status_code (''Groq API Error: '' @ body)),
                log_error w3 (''Groq API Error: '' @ str_int status_code @ '' - '' @ body))
             else
               (case json_loads e body of
                  Inl x \<Rightarrow> (Inl (raised x), w3)
                | Inr result \<Rightarrow>
                    (case content_of result of
                       Inl x \<Rightarrow> (Inl x, w3)
                     | Inr extracted_info \<Rightarrow>
                         coerce e
                           (log_info w3 ''Successfully received response from Groq API'')
                           extracted_info)))"

subsection \<open>The routes (lines 228 to 265)\<close>

definition parse_resume :: "env \<Rightarrow> world \<Rightarrow> upload \<Rightarrow> (exc + json) \<times> world" where
  "parse_resume e w resume_file =
     (let w1 = log_info w (''Received resume parsing request: '' @ str_opt (filename resume_file))
      in if content_type resume_file \<noteq> Some ''application/pdf'' then
           (Inl (HTTPException 400 ''Only PDF files are supported''),
            log_error w1 (''Invalid file type: '' @ str_opt (content_type resume_file)))
         else
           (case extract_text_from_pdf e w1 resume_file of
              (Inl x, w2) \<Rightarrow> (Inl x, w2)
            | (Inr resume_text, w2) \<Rightarrow>
                (case query_groq e w2 resume_text True of
                   (Inl x, w3) \<Rightarrow> (Inl x, w3)
                 | (Inr parsed_info, w3) \<Rightarrow>
                     (Inr parsed_info, log_info w3 ''Successfully parsed resume''))))"

definition parse_job_description :: "env \<Rightarrow> world \<Rightarrow> string \<Rightarrow> (exc + json) \<times> world" where
  "parse_job_description e w job_description =
     (let w1 = log_info w ''Received job description parsing request''
      in case query_groq e w1 job_description False of
           (Inl x, w2) \<Rightarrow> (Inl x, w2)
         | (Inr parsed_info, w2) \<Rightarrow>
             (Inr parsed_info, log_info w2 ''Successfully parsed job description''))"

definition health_check :: "world \<Rightarrow> (exc + json) \<times> world" where
  "health_check w =
     (Inr (JObject [(''status'', JString ''healthy''), (''version'', JString ''1.0.0'')]),
      log_info w ''Health check request received'')"

text \<open>
  What the framework sends for a handler's outcome: a value returned by a route that
  declares no response model goes out with status 200; \<^verbatim>\<open>HTTPException(s, d)\<close> goes
  out with status \<open>s\<close> and the body \<^verbatim>\<open>{"detail": d}\<close>; any other exception is
  answered with a bare status 500.
\<close>

fun respond :: "exc + json \<Rightarrow> int \<times> json" where
  "respond (Inr v) = (200, v)"
| "respond (Inl (HTTPException status detail)) = (status, JObject [(''detail'', JString detail)])"
| "respond (Inl x) = (500, JString ''Internal Server Error'')"

subsection \<open>The shape line 209 expects\<close>

text \<open>
  \<^verbatim>\<open>LookupError\<close> is Python's common base class of KeyError and IndexError.
  \<open>subscript_error\<close> adds TypeError, the third exception a subscription raises.
\<close>

fun LookupError :: "exc \<Rightarrow> bool" where
  "LookupError (KeyError k) = True"
| "LookupError IndexError = True"
| "LookupError x = False"

fun subscript_error :: "exc \<Rightarrow> bool" where
  "subscript_error (KeyError k) = True"
| "subscript_error IndexError = True"
| "subscript_error TypeError = True"
| "subscript_error x = False"

text \<open>
  The specification's words, not the code's: the decoded body has a non-empty
  \<^verbatim>\<open>"choices"\<close> list whose first element has a \<^verbatim>\<open>"message"\<close> object with a
  \<^verbatim>\<open>"content"\<close> field.
\<close>

definition has_content :: "json \<Rightarrow> bool" where
  "has_content result =
     (case result of
        JObject kvs \<Rightarrow>
          (case map_of kvs ''choices'' of
             Some (JArray (choice # rest)) \<Rightarrow>
               (case choice of
                  JObject ckvs \<Rightarrow>
                    (case map_of ckvs ''message'' of
                       Some (JObject mkvs) \<Rightarrow>
                         (case map_of mkvs ''content'' of Some c \<Rightarrow> True | None \<Rightarrow> False)
                     | _ \<Rightarrow> False)
                | _ \<Rightarrow> False)
           | _ \<Rightarrow> False)
      | _ \<Rightarrow> False)"

subsection \<open>Sample worlds, uploads and environments\<close>

definition w0 :: world where
  "w0 = \<lparr>files = Map.empty, calls = [], logged = []\<rparr>"

text \<open>
  An integer literal of 5000 digits, and an upstream body whose content it is.
\<close>

definition long_int :: string where
  "long_int = replicate 5000 (CHR ''1'')"

definition long_int_body :: string where
  \<open>long_int_body = ''{"choices": [{"message": {"content": "'' @ long_int @ ''"}}]}''\<close>

text \<open>
  A table of the decoder, with what \<^verbatim>\<open>json.loads\<close> gives on the strings the examples
  below use. The first line is the digit limit of the integer conversion.
\<close>

definition sample_loads :: "string \<Rightarrow> loads_error + json" where
  \<open>sample_loads s =
     (if 4300 < length s \<and> set s \<subseteq> set ''0123456789'' \<and> hd s \<noteq> CHR ''0'' then
        Inl (DigitLimit
          (''Exceeds the limit (4300 digits) for integer string conversion: value has '' @
           str_nat (length s) @
           '' digits; use sys.set_int_max_str_digits() to increase the limit''))
      else if s = ''[1, 2]'' then Inr (JArray [JNum 1, JNum 2])
      else if s = ''{"choices": [{"message": {"content": "[1, 2]"}}]}'' then
        Inr (JObject [(''choices'',
               JArray [JObject [(''message'', JObject [(''content'', JString ''[1, 2]'')])]])])
      else if s = ''{"choices": [{"message": {"content": "Jane Doe, engineer"}}]}'' then
        Inr (JObject [(''choices'',
               JArray [JObject [(''message'',
                 JObject [(''content'', JString ''Jane Doe, engineer'')])]])])
      else if s = ''{"choices": null}'' then Inr (JObject [(''choices'', JNull)])
      else if s = ''NaN'' then Inr (JNonFinite NaN)
      else if s = long_int_body then
        Inr (JObject [(''choices'',
               JArray [JObject [(''message'', JObject [(''content'', JString long_int)])]])])
      else Inl (DecodeError ''Expecting value: line 1 column 1 (char 0)''))\<close>

definition sample_reader :: "bytes \<Rightarrow> string + (string + string) list" where
  "sample_reader data =
     (if take 5 data = ''%PDF-'' then Inr [Inr ''Jane Doe'', Inr '', engineer'']
      else Inl ''EOF marker not found'')"

definition env_with :: "http_outcome \<Rightarrow> env" where
  "env_with outcome =
     \<lparr>GROQ_API_KEY = ''gsk_example'', mkstemp = (\<lambda>w. ''/tmp/tmpk3v9x2.pdf''),
      PdfReader = sample_reader, post = (\<lambda>req. outcome), json_loads = sample_loads\<rparr>"

definition env_401 :: env where
  \<open>env_401 = env_with (Response 401 ''{"error": "Invalid API Key"}'')\<close>

definition env_timeout :: env where
  "env_timeout = env_with (RequestError ''timed out'')"

definition env_parsed :: env where
  \<open>env_parsed =
     env_with (Response 200 ''{"choices": [{"message": {"content": "[1, 2]"}}]}'')\<close>


definition env_null_choices :: env where
  \<open>env_null_choices = env_with (Response 200 ''{"choices": null}'')\<close>


definition pdf_upload :: upload where
  "pdf_upload =
     \<lparr>filename = Some ''cv.pdf'', content_type = Some ''application/pdf'',
      content = ''%PDF-1.4 Jane Doe, engineer''\<rparr>"

definition mislabelled_upload :: upload where
  "mislabelled_upload =
     \<lparr>filename = Some ''notes.txt'', content_type = Some ''application/pdf'',
      content = ''Jane Doe, engineer''\<rparr>"

definition text_upload :: upload where
  "text_upload =
     \<lparr>filename = Some ''notes.txt'', content_type = Some ''text/plain'',
      content = ''Jane Doe, engineer''\<rparr>"

section \<open>The claims\<close>

subsection \<open>What each step leaves in place\<close>

lemma calls_coerce: "calls (snd (coerce e w x)) = calls w"
  by (cases x) (simp_all add: coerce_def log_info_def log_warning_def split: sum.splits loads_error.splits)

lemma files_coerce: "files (snd (coerce e w x)) = files w"
  by (cases x)
     (simp_all add: coerce_def log_info_def log_warning_def split: sum.splits loads_error.splits)

lemma calls_query_groq:
  "calls (snd (query_groq e w text is_resume)) =
     calls w @ [Post (groq_request e text is_resume)]"
proof (cases "post e (groq_request e text is_resume)")
  case (RequestError msg)
  then show ?thesis
    by (simp add: query_groq_def Let_def log_info_def log_error_def)
next
  case (Response status_code body)
  then show ?thesis
    by (simp add: query_groq_def Let_def calls_coerce log_info_def log_error_def
          split: sum.splits)
qed

lemma files_query_groq: "files (snd (query_groq e w text is_resume)) = files w"
proof (cases "post e (groq_request e text is_resume)")
  case (RequestError msg)
  then show ?thesis
    by (simp add: query_groq_def Let_def log_info_def log_error_def)
next
  case (Response status_code body)
  then show ?thesis
    by (simp add: query_groq_def Let_def files_coerce log_info_def log_error_def
          split: sum.splits)
qed

subsection \<open>C1: an upstream status other than 200\<close>

text \<open>
  C1, as the code has it. When the completion endpoint answers with any status other
  than 200 (every non-2xx status among them), \<open>query_groq\<close> raises an HTTPException
  whose status is the upstream status itself, not 500, and whose detail is
  \<^verbatim>\<open>Groq API Error: \<close> followed by the upstream response body.
\<close>

theorem query_groq_forwards_upstream_status:
  assumes "post e (groq_request e text is_resume) = Response status_code body"
    and "status_code \<noteq> 200"
  shows "fst (query_groq e w text is_resume) =
           Inl (HTTPException status_code (''Groq API Error: '' @ body))"
  using assms by (simp add: query_groq_def Let_def)

theorem query_groq_forwards_upstream_status_witness:
  \<open>post env_401 (groq_request env_401 ''Jane Doe, engineer'' True) =
     Response 401 ''{"error": "Invalid API Key"}'' \<and>
   (401::int) \<noteq> 200 \<and>
   fst (query_groq env_401 w0 ''Jane Doe, engineer'' True) =
     Inl (HTTPException 401 (''Groq API Error: '' @ ''{"error": "Invalid API Key"}''))\<close>
proof -
  have h: \<open>post env_401 (groq_request env_401 ''Jane Doe, engineer'' True) =
             Response 401 ''{"error": "Invalid API Key"}''\<close>
    by (simp add: env_401_def env_with_def)
  have n: "(401::int) \<noteq> 200" by simp
  from query_groq_forwards_upstream_status [OF h n, of w0] h n show ?thesis by blast
qed

text \<open>
  The claim as written asks for status 500. An upstream 401 comes out as 401.
\<close>

theorem query_groq_401_is_not_500:
  \<open>fst (query_groq env_401 w0 ''Jane Doe, engineer'' True) =
     Inl (HTTPException 401 ''Groq API Error: {"error": "Invalid API Key"}'') \<and>
   fst (respond (fst (query_groq env_401 w0 ''Jane Doe, engineer'' True))) \<noteq> 500\<close>
  by (simp add: query_groq_def Let_def env_401_def env_with_def)

subsection \<open>C3: the lenient decoding of the content\<close>

text \<open>
  The decoder accepts \<^verbatim>\<open>NaN\<close>, which is not JSON: the coercer then returns the float,
  not the string it was given.
\<close>

lemma coercer_accepts_NaN:
  "fst (coerce env_parsed w0 (JString ''NaN'')) = Inr (JNonFinite NaN)"
  by (simp add: coerce_def env_parsed_def env_with_def sample_loads_def)








subsection \<open>C4: an upload that is not declared as a PDF\<close>

text \<open>
  C4. When the declared content type of the upload is not \<^verbatim>\<open>application/pdf\<close>, the
  resume route raises HTTPException 400, which the framework sends with status 400, and
  neither the extraction nor the remote call happens: the file system and the list of
  outside calls are what they were.
\<close>

theorem parse_resume_rejects_non_pdf:
  assumes "content_type u \<noteq> Some ''application/pdf''"
  shows "fst (parse_resume e w u) = Inl (HTTPException 400 ''Only PDF files are supported'') \<and>
         fst (respond (fst (parse_resume e w u))) = 400 \<and>
         files (snd (parse_resume e w u)) = files w \<and>
         calls (snd (parse_resume e w u)) = calls w"
  using assms by (simp add: parse_resume_def Let_def log_info_def log_error_def)

theorem parse_resume_rejects_non_pdf_witness:
  "content_type text_upload \<noteq> Some ''application/pdf'' \<and>
   fst (parse_resume env_parsed w0 text_upload) =
     Inl (HTTPException 400 ''Only PDF files are supported'') \<and>
   fst (respond (fst (parse_resume env_parsed w0 text_upload))) = 400 \<and>
   files (snd (parse_resume env_parsed w0 text_upload)) = files w0 \<and>
   calls (snd (parse_resume env_parsed w0 text_upload)) = calls w0"
proof -
  have h: "content_type text_upload \<noteq> Some ''application/pdf''"
    by (simp add: text_upload_def)
  from parse_resume_rejects_non_pdf [OF h, of env_parsed w0] h show ?thesis by blast
qed

subsection \<open>C5: a failure of the transport\<close>

text \<open>
  C5. When the post fails with an \<^verbatim>\<open>httpx.RequestError\<close> (DNS, connection,
  timeout), \<open>query_groq\<close> raises HTTPException 500 whose detail is
  \<^verbatim>\<open>Error communicating with Groq API: \<close> followed by the error's message, and this
  error differs from the one raised for any upstream answer with a status other than 200.
\<close>

theorem query_groq_transport_failure:
  assumes "post e (groq_request e text is_resume) = RequestError msg"
    and "post e' (groq_request e' text' is_resume') = Response status_code body"
    and "status_code \<noteq> 200"
  shows "fst (query_groq e w text is_resume) =
           Inl (HTTPException 500 (''Error communicating with Groq API: '' @ msg)) \<and>
         fst (query_groq e w text is_resume) \<noteq> fst (query_groq e' w' text' is_resume')"
  using assms by (simp add: query_groq_def Let_def)

theorem query_groq_transport_failure_witness:
  "post env_timeout (groq_request env_timeout ''Jane Doe, engineer'' True) =
     RequestError ''timed out'' \<and>
   post (env_with (Response 500 ''timed out''))
     (groq_request (env_with (Response 500 ''timed out'')) ''Jane Doe, engineer'' True) =
     Response 500 ''timed out'' \<and>
   (500::int) \<noteq> 200 \<and>
   fst (query_groq env_timeout w0 ''Jane Doe, engineer'' True) =
     Inl (HTTPException 500 (''Error communicating with Groq API: '' @ ''timed out'')) \<and>
   fst (query_groq env_timeout w0 ''Jane Doe, engineer'' True) \<noteq>
     fst (query_groq (env_with (Response 500 ''timed out'')) w0 ''Jane Doe, engineer'' True)"
proof -
  have a: "post env_timeout (groq_request env_timeout ''Jane Doe, engineer'' True) =
             RequestError ''timed out''"
    by (simp add: env_timeout_def env_with_def)
  have b: "post (env_with (Response 500 ''timed out''))
             (groq_request (env_with (Response 500 ''timed out'')) ''Jane Doe, engineer'' True) =
             Response 500 ''timed out''"
    by (simp add: env_with_def)
  have n: "(500::int) \<noteq> 200" by simp
  from query_groq_transport_failure [OF a b n, of w0 w0] a b n show ?thesis by blast
qed

subsection \<open>C6: the request that is sent\<close>

text \<open>
  C6. For every text and document-type flag, \<open>query_groq\<close> makes exactly one outside
  call, a post to the completion endpoint with a timeout of 60 seconds, whose body holds
  the model identifier, exactly two messages (the selected system prompt, then the
  document text as the user message), the temperature 0.2 and the response format
  \<^verbatim>\<open>json_object\<close>. This holds on every path, so nothing is retried.
\<close>

theorem query_groq_sends_one_request:
  "calls (snd (query_groq e w text is_resume)) =
     calls w @
     [Post \<lparr>url = ''https://api.groq.com/openai/v1/chat/completions'',
            headers = [(''Authorization'', ''Bearer '' @ GROQ_API_KEY e),
                       (''Content-Type'', ''application/json'')],
            json_body =
              JObject
                [(''model'', JString ''llama3-70b-8192''),
                 (''messages'',
                    JArray
                      [JObject [(''role'', JString ''system''),
                                (''content'',
                                   JString (if is_resume then resume_system_prompt
                                            else job_system_prompt))],
                       JObject [(''role'', JString ''user''), (''content'', JString text)]]),
                 (''temperature'', JNum (2 / 10)),
                 (''response_format'', JObject [(''type'', JString ''json_object'')])],
            timeout = 60\<rparr>]"
  by (simp add: calls_query_groq groq_request_def payload_def request_headers_def
        system_prompt_def GROQ_API_URL_def)

subsection \<open>C7: the health probe\<close>

text \<open>
  C7. The health probe returns the payload
  \<^verbatim>\<open>{"status": "healthy", "version": "1.0.0"}\<close>, sent with status 200. It takes no
  environment, so the answer cannot depend on the upstream. It leaves the program's
  state as it was: the files and the list of outside calls are unchanged. The one record
  that line 264 hands to the logger goes to the logger's output, which is not counted as
  program state (the specification counts it so throughout: it calls the prompt
  selection of lines 96 to 178 pure, which logs as well).
\<close>

theorem health_check_payload_and_frame:
  "health_check w =
     (Inr (JObject [(''status'', JString ''healthy''), (''version'', JString ''1.0.0'')]),
      w\<lparr>logged := logged w @ [(INFO, ''Health check request received'')]\<rparr>) \<and>
   respond (fst (health_check w)) =
     (200, JObject [(''status'', JString ''healthy''), (''version'', JString ''1.0.0'')]) \<and>
   files (snd (health_check w)) = files w \<and>
   calls (snd (health_check w)) = calls w"
  by (simp add: health_check_def log_info_def)

subsection \<open>C8: the credential at start-up\<close>

text \<open>
  C8 at the failing input. With the non-empty literal of line 24 and a process
  environment that holds no credential at all, loading the module raises nothing and the
  key is the literal.
\<close>

theorem startup_succeeds_without_external_credential:
  "startup (c # cs) Map.empty = Inr (c # cs)"
  by (simp add: startup_def)

subsection \<open>C2: the temporary file\<close>

text \<open>
  The temporary file is still there after the call exactly when the call raises (and
  the name was not taken before only if the library picked a fresh one).
\<close>

lemma temp_file_left_iff_raises:
  "(mkstemp e w \<in> dom (files (snd (extract_text_from_pdf e w u)))) =
   isl (fst (extract_text_from_pdf e w u))"
  by (simp add: extract_text_from_pdf_def Let_def read_pdf_def log_info_def log_error_def
        split: sum.splits option.splits)

lemma extract_text_from_pdf_readable:
  "fst (extract_text_from_pdf env_parsed w0 pdf_upload) = Inr ''Jane Doe, engineer'' \<and>
   files (snd (extract_text_from_pdf env_parsed w0 pdf_upload)) = Map.empty"
  by (simp add: extract_text_from_pdf_def Let_def read_pdf_def env_parsed_def env_with_def
        sample_reader_def pdf_upload_def w0_def log_info_def log_error_def)

text \<open>
  C2 at the failing input. An upload whose bytes the reader cannot parse: the call
  raises HTTPException 500 and the temporary file, absent before, holds the upload's
  bytes afterwards.
\<close>

theorem extract_text_from_pdf_leaves_temp_file:
  "fst (extract_text_from_pdf env_parsed w0 mislabelled_upload) =
     Inl (HTTPException 500 ''Error extracting text from PDF: EOF marker not found'') \<and>
   files w0 ''/tmp/tmpk3v9x2.pdf'' = None \<and>
   files (snd (extract_text_from_pdf env_parsed w0 mislabelled_upload)) ''/tmp/tmpk3v9x2.pdf'' =
     Some ''Jane Doe, engineer''"
  by (simp add: extract_text_from_pdf_def Let_def read_pdf_def env_parsed_def env_with_def
        sample_reader_def mislabelled_upload_def w0_def log_info_def log_error_def)

subsection \<open>C9: a 200 answer of another shape\<close>

lemma getitem_error: "getitem j k = Inl x \<Longrightarrow> subscript_error x"
  by (cases j; cases k) (auto split: option.splits)

lemma getitem_KStr_Inr:
  "getitem j (KStr k) = Inr v \<Longrightarrow> \<exists>kvs. j = JObject kvs \<and> map_of kvs k = Some v"
  by (cases j) (auto split: option.splits)

lemma getitem_zero_JObject:
  "getitem j (KInt 0) = Inr (JObject kvs) \<Longrightarrow> \<exists>rest. j = JArray (JObject kvs # rest)"
proof (cases j)
  case (JArray xs)
  assume g: "getitem j (KInt 0) = Inr (JObject kvs)"
  show ?thesis
  proof (cases xs)
    case Nil
    with JArray g show ?thesis by (simp add: index_of_def)
  next
    case (Cons y ys)
    with JArray g show ?thesis by (simp add: index_of_def)
  qed
qed (auto simp: index_of_def Let_def split: option.splits if_splits)

lemma content_of_error: "content_of result = Inl x \<Longrightarrow> subscript_error x"
  by (auto simp: content_of_def split: sum.splits dest: getitem_error)

text \<open>
  The subscriptions of line 209 succeed exactly on the shape the specification
  describes.
\<close>

lemma content_of_Inr_has_content:
  assumes "content_of result = Inr c"
  shows "has_content result"
proof -
  from assms obtain choices choice message where
    a: "getitem result (KStr ''choices'') = Inr choices" and
    b: "getitem choices (KInt 0) = Inr choice" and
    c: "getitem choice (KStr ''message'') = Inr message" and
    d: "getitem message (KStr ''content'') = Inr c"
    by (auto simp: content_of_def split: sum.splits)
  from a obtain kvs where r: "result = JObject kvs" "map_of kvs ''choices'' = Some choices"
    by (blast dest: getitem_KStr_Inr)
  from c obtain ckvs where ch: "choice = JObject ckvs" "map_of ckvs ''message'' = Some message"
    by (blast dest: getitem_KStr_Inr)
  from d obtain mkvs where m: "message = JObject mkvs" "map_of mkvs ''content'' = Some c"
    by (blast dest: getitem_KStr_Inr)
  from b ch obtain rest where cs: "choices = JArray (JObject ckvs # rest)"
    by (blast dest: getitem_zero_JObject)
  from r ch m cs show ?thesis by (simp add: has_content_def)
qed

lemma has_content_content_of:
  assumes "has_content result"
  shows "\<exists>c. content_of result = Inr c"
proof -
  from assms obtain kvs where r: "result = JObject kvs"
    by (cases result) (simp_all add: has_content_def)
  with assms obtain choices where c1: "map_of kvs ''choices'' = Some choices"
    by (cases "map_of kvs ''choices''") (simp_all add: has_content_def)
  with r assms obtain xs where c2: "choices = JArray xs"
    by (cases choices) (simp_all add: has_content_def)
  with r c1 assms obtain choice rest where c3: "xs = choice # rest"
    by (cases xs) (simp_all add: has_content_def)
  with r c1 c2 assms obtain ckvs where c4: "choice = JObject ckvs"
    by (cases choice) (simp_all add: has_content_def)
  with r c1 c2 c3 assms obtain message where c5: "map_of ckvs ''message'' = Some message"
    by (cases "map_of ckvs ''message''") (simp_all add: has_content_def)
  with r c1 c2 c3 c4 assms obtain mkvs where c6: "message = JObject mkvs"
    by (cases message) (simp_all add: has_content_def)
  with r c1 c2 c3 c4 c5 assms obtain c where c7: "map_of mkvs ''content'' = Some c"
    by (cases "map_of mkvs ''content''") (simp_all add: has_content_def)
  from r c1 c2 c3 c4 c5 c6 c7 show ?thesis
    by (simp add: content_of_def index_of_def)
qed

text \<open>
  C9, as the code has it. When the endpoint answers 200 and the decoded body lacks a
  non-empty \<^verbatim>\<open>"choices"\<close> list whose first element has a \<^verbatim>\<open>"message"\<close> object with
  a \<^verbatim>\<open>"content"\<close> field, line 209 raises KeyError, IndexError or TypeError, and
  \<open>query_groq\<close> lets it out as it is: the result is that exception, not an
  HTTPException.
\<close>

theorem query_groq_unexpected_shape:
  assumes "post e (groq_request e text is_resume) = Response 200 body"
    and "json_loads e body = Inr result"
    and "\<not> has_content result"
  shows "\<exists>x. fst (query_groq e w text is_resume) = Inl x \<and> subscript_error x \<and>
             (\<forall>status detail. x \<noteq> HTTPException status detail)"
proof -
  from assms(3) obtain x where x: "content_of result = Inl x"
    by (cases "content_of result") (auto dest: content_of_Inr_has_content)
  then have s: "subscript_error x" by (rule content_of_error)
  then have "\<forall>status detail. x \<noteq> HTTPException status detail" by auto
  moreover from assms(1,2) x have "fst (query_groq e w text is_resume) = Inl x"
    by (simp add: query_groq_def Let_def)
  ultimately show ?thesis using s by blast
qed

theorem query_groq_unexpected_shape_witness:
  \<open>post env_null_choices (groq_request env_null_choices ''Jane Doe, engineer'' True) =
     Response 200 ''{"choices": null}'' \<and>
   json_loads env_null_choices ''{"choices": null}'' = Inr (JObject [(''choices'', JNull)]) \<and>
   \<not> has_content (JObject [(''choices'', JNull)]) \<and>
   (\<exists>x. fst (query_groq env_null_choices w0 ''Jane Doe, engineer'' True) = Inl x \<and>
        subscript_error x \<and> (\<forall>status detail. x \<noteq> HTTPException status detail))\<close>
proof -
  have p: \<open>post env_null_choices (groq_request env_null_choices ''Jane Doe, engineer'' True) =
             Response 200 ''{"choices": null}''\<close>
    by (simp add: env_null_choices_def env_with_def)
  have l: \<open>json_loads env_null_choices ''{"choices": null}'' =
             Inr (JObject [(''choices'', JNull)])\<close>
    by (simp add: env_null_choices_def env_with_def sample_loads_def)
  have n: "\<not> has_content (JObject [(''choices'', JNull)])"
    by (simp add: has_content_def)
  from query_groq_unexpected_shape [OF p l n, of w0] p l n show ?thesis by blast
qed

text \<open>
  The claim as written names KeyError and IndexError only. A body whose
  \<^verbatim>\<open>"choices"\<close> is \<^verbatim>\<open>null\<close> makes line 209 raise TypeError.
\<close>

theorem query_groq_null_choices_raises_TypeError:
  "fst (query_groq env_null_choices w0 ''Jane Doe, engineer'' True) = Inl TypeError \<and>
   \<not> LookupError TypeError"
  by (simp add: query_groq_def Let_def env_null_choices_def env_with_def sample_loads_def
        content_of_def)

subsection \<open>C10: the content-type check looks at the label only\<close>

lemma query_groq_not_rejection:
  "fst (query_groq e w text is_resume) \<noteq>
     Inl (HTTPException 400 ''Only PDF files are supported'')"
proof (cases "post e (groq_request e text is_resume)")
  case (RequestError msg)
  then show ?thesis by (simp add: query_groq_def Let_def)
next
  case (Response status_code body)
  show ?thesis
  proof (cases "status_code = 200")
    case False
    with Response show ?thesis by (simp add: query_groq_def Let_def)
  next
    case True
    show ?thesis
    proof (cases "json_loads e body")
      case (Inl x)
      have "raised x \<noteq> HTTPException 400 ''Only PDF files are supported''"
        by (cases x) simp_all
      with Response True Inl show ?thesis by (simp add: query_groq_def Let_def)
    next
      case (Inr result)
      show ?thesis
      proof (cases "content_of result")
        case (Inl x)
        then have "subscript_error x" by (rule content_of_error)
        then have "x \<noteq> HTTPException 400 ''Only PDF files are supported''" by auto
        with Response True Inr Inl show ?thesis by (simp add: query_groq_def Let_def)
      next
        case (Inr extracted_info)
        with Response True \<open>json_loads e body = Inr result\<close> show ?thesis
          by (cases extracted_info)
             (simp_all add: query_groq_def Let_def coerce_def
                split: sum.splits loads_error.splits)
      qed
    qed
  qed
qed

lemma extract_not_rejection:
  "fst (extract_text_from_pdf e w u) \<noteq>
     Inl (HTTPException 400 ''Only PDF files are supported'')"
  by (simp add: extract_text_from_pdf_def Let_def split: sum.splits)

lemma calls_extract:
  "calls (snd (extract_text_from_pdf e w u)) =
     calls w @ [WriteTemp (mkstemp e w) (content u), OpenPdf (mkstemp e w)] @
     (if isl (fst (extract_text_from_pdf e w u)) then [] else [Unlink (mkstemp e w)])"
  by (simp add: extract_text_from_pdf_def Let_def log_info_def log_error_def
        split: sum.splits)

lemma parse_resume_pdf_not_rejection:
  assumes "content_type u = Some ''application/pdf''"
  shows "fst (parse_resume e w u) \<noteq> Inl (HTTPException 400 ''Only PDF files are supported'')"
proof -
  let ?w1 = "log_info w (''Received resume parsing request: '' @ str_opt (filename u))"
  obtain r w2 where x: "extract_text_from_pdf e ?w1 u = (r, w2)"
    by (cases "extract_text_from_pdf e ?w1 u")
  show ?thesis
  proof (cases r)
    case (Inl x')
    with x extract_not_rejection [of e ?w1 u] assms show ?thesis
      by (simp add: parse_resume_def Let_def)
  next
    case (Inr resume_text)
    obtain r3 w3 where q: "query_groq e w2 resume_text True = (r3, w3)"
      by (cases "query_groq e w2 resume_text True")
    with query_groq_not_rejection [of e w2 resume_text True]
    have "r3 \<noteq> Inl (HTTPException 400 ''Only PDF files are supported'')" by simp
    with x Inr q assms show ?thesis
      by (cases r3) (simp_all add: parse_resume_def Let_def)
  qed
qed

lemma parse_resume_pdf_extracts:
  assumes "content_type u = Some ''application/pdf''"
  shows "\<exists>rest. calls (snd (parse_resume e w u)) =
           calls w @
           WriteTemp (mkstemp e (log_info w (''Received resume parsing request: '' @
                                             str_opt (filename u)))) (content u) #
           OpenPdf (mkstemp e (log_info w (''Received resume parsing request: '' @
                                           str_opt (filename u)))) # rest"
proof -
  let ?w1 = "log_info w (''Received resume parsing request: '' @ str_opt (filename u))"
  let ?p = "mkstemp e ?w1"
  obtain r w2 where x: "extract_text_from_pdf e ?w1 u = (r, w2)"
    by (cases "extract_text_from_pdf e ?w1 u")
  have w1: "calls ?w1 = calls w" by (simp add: log_info_def)
  from calls_extract [of e ?w1 u] x w1
  obtain tl where c: "calls w2 = calls w @ WriteTemp ?p (content u) # OpenPdf ?p # tl"
    by simp
  show ?thesis
  proof (cases r)
    case (Inl x')
    with x c assms show ?thesis by (simp add: parse_resume_def Let_def)
  next
    case (Inr resume_text)
    obtain r3 w3 where q: "query_groq e w2 resume_text True = (r3, w3)"
      by (cases "query_groq e w2 resume_text True")
    with calls_query_groq [of e w2 resume_text True] c
    have c3: "calls w3 = calls w @ WriteTemp ?p (content u) # OpenPdf ?p #
                (tl @ [Post (groq_request e resume_text True)])"
      by simp
    with x Inr q assms show ?thesis
      by (cases r3) (simp_all add: parse_resume_def Let_def log_info_def)
  qed
qed

text \<open>
  C10. The outcome of the content-type check is a function of the declared content type
  alone: the upload is refused with the 400 of line 237 exactly when the label is not
  \<^verbatim>\<open>application/pdf\<close>, so two uploads with the same label get the same outcome
  whatever their bytes (and whatever the libraries and the world do). An upload labelled
  \<^verbatim>\<open>application/pdf\<close> always goes on to extraction: the first things this call does
  to the outside are to write the upload's bytes to the temporary file and to open the
  reader on it.
\<close>

theorem content_type_check_ignores_payload:
  assumes "content_type u1 = content_type u2"
  shows "(fst (parse_resume e1 w1 u1) = Inl (HTTPException 400 ''Only PDF files are supported'')) =
         (fst (parse_resume e2 w2 u2) = Inl (HTTPException 400 ''Only PDF files are supported'')) \<and>
         (fst (parse_resume e1 w1 u1) = Inl (HTTPException 400 ''Only PDF files are supported'')) =
         (content_type u1 \<noteq> Some ''application/pdf'') \<and>
         (content_type u1 = Some ''application/pdf'' \<longrightarrow>
            (\<exists>rest. calls (snd (parse_resume e1 w1 u1)) =
               calls w1 @
               WriteTemp (mkstemp e1 (log_info w1 (''Received resume parsing request: '' @
                                                   str_opt (filename u1)))) (content u1) #
               OpenPdf (mkstemp e1 (log_info w1 (''Received resume parsing request: '' @
                                                 str_opt (filename u1)))) # rest))"
proof (cases "content_type u1 = Some ''application/pdf''")
  case True
  with assms have "content_type u2 = Some ''application/pdf''" by simp
  with True parse_resume_pdf_not_rejection [of u1 e1 w1]
    parse_resume_pdf_not_rejection [of u2 e2 w2] parse_resume_pdf_extracts [of u1 e1 w1]
  show ?thesis by simp
next
  case False
  with assms have "content_type u2 \<noteq> Some ''application/pdf''" by simp
  with False show ?thesis by (simp add: parse_resume_def Let_def)
qed

theorem content_type_check_ignores_payload_witness:
  "content_type mislabelled_upload = content_type pdf_upload \<and>
   content mislabelled_upload \<noteq> content pdf_upload \<and>
   content_type mislabelled_upload = Some ''application/pdf'' \<and>
   (fst (parse_resume env_parsed w0 mislabelled_upload) =
      Inl (HTTPException 400 ''Only PDF files are supported'')) =
   (fst (parse_resume env_parsed w0 pdf_upload) =
      Inl (HTTPException 400 ''Only PDF files are supported'')) \<and>
   fst (parse_resume env_parsed w0 mislabelled_upload) \<noteq>
      Inl (HTTPException 400 ''Only PDF files are supported'') \<and>
   (\<exists>rest. calls (snd (parse_resume env_parsed w0 mislabelled_upload)) =
      calls w0 @
      WriteTemp (mkstemp env_parsed (log_info w0 (''Received resume parsing request: '' @
                   str_opt (filename mislabelled_upload)))) (content mislabelled_upload) #
      OpenPdf (mkstemp env_parsed (log_info w0 (''Received resume parsing request: '' @
                 str_opt (filename mislabelled_upload)))) # rest)"
proof -
  have h: "content_type mislabelled_upload = content_type pdf_upload"
    by (simp add: mislabelled_upload_def pdf_upload_def)
  have d: "content mislabelled_upload \<noteq> content pdf_upload"
    by (simp add: mislabelled_upload_def pdf_upload_def)
  have t: "content_type mislabelled_upload = Some ''application/pdf''"
    by (simp add: mislabelled_upload_def)
  from content_type_check_ignores_payload [OF h, of env_parsed w0 env_parsed w0] h d t
  show ?thesis by blast
qed

end
